theory Spec2Isabelle
  imports Main
begin

section \<open>Strings\<close>

text \<open>
  A Python \<open>str\<close> is modelled as the byte string of its UTF-8 encoding. The literals of
  \<open>main.py\<close> that contain Chinese text are written as lists of Unicode code points and
  encoded by \<open>utf8\<close>; an f-string is the concatenation of its parts. The only place where
  the source indexes a string is \<open>message_str[9:]\<close>, behind the nine ASCII characters of
  \<open>"liveinfo "\<close>, where bytes and code points coincide.
\<close>

fun utf8_char :: "nat \<Rightarrow> string" where
  "utf8_char c =
     (if c < 0x80 then [char_of c]
      else if c < 0x800 then [char_of (0xC0 + c div 0x40), char_of (0x80 + c mod 0x40)]
      else if c < 0x10000 then
        [char_of (0xE0 + c div 0x1000), char_of (0x80 + c div 0x40 mod 0x40),
         char_of (0x80 + c mod 0x40)]
      else
        [char_of (0xF0 + c div 0x40000), char_of (0x80 + c div 0x1000 mod 0x40),
         char_of (0x80 + c div 0x40 mod 0x40), char_of (0x80 + c mod 0x40)])"

definition utf8 :: "nat list \<Rightarrow> string" where
  "utf8 cs = concat (map utf8_char cs)"

text \<open>
  The string methods the source calls. They are modelled on ASCII: \<open>str.strip\<close> removes
  the characters Python counts as whitespace below U+0080, \<open>str.lower\<close> maps \<open>A\<close>..\<open>Z\<close> to
  \<open>a\<close>..\<open>z\<close>, \<open>str.isdigit\<close> holds of a non-empty string of \<open>0\<close>..\<open>9\<close>. Bytes from 0x80 on
  (the encoding of any other character) are neither whitespace nor digit and are left as
  they are.
\<close>

definition isspace :: "char \<Rightarrow> bool" where
  "isspace c = ((of_char c :: nat) \<in> {9, 10, 11, 12, 13, 28, 29, 30, 31, 32})"

definition strip :: "string \<Rightarrow> string" where
  "strip s = rev (dropWhile isspace (rev (dropWhile isspace s)))"

definition lower_char :: "char \<Rightarrow> char" where
  "lower_char c =
     (if 65 \<le> (of_char c :: nat) \<and> (of_char c :: nat) \<le> 90
      then char_of ((of_char c :: nat) + 32) else c)"

definition lower :: "string \<Rightarrow> string" where
  "lower s = map lower_char s"

definition isdigit_char :: "char \<Rightarrow> bool" where
  "isdigit_char c = (48 \<le> (of_char c :: nat) \<and> (of_char c :: nat) \<le> 57)"

definition isdigit :: "string \<Rightarrow> bool" where
  "isdigit s = (s \<noteq> [] \<and> list_all isdigit_char s)"

definition startswith :: "string \<Rightarrow> string \<Rightarrow> bool" where
  "startswith s p = (take (length p) s = p)"

fun join :: "string \<Rightarrow> string list \<Rightarrow> string" where
  "join sep [] = []"
| "join sep [x] = x"
| "join sep (x # y # ys) = x @ sep @ join sep (y # ys)"

text \<open>\<open>str(n)\<close> and \<open>f"{n}"\<close> of an integer: its decimal digits, with a minus sign when negative.\<close>

fun str_nat :: "nat \<Rightarrow> string" where
  "str_nat n =
     (if n < 10 then [char_of (48 + n)] else str_nat (n div 10) @ [char_of (48 + n mod 10)])"

declare str_nat.simps [simp del]

definition str_int :: "int \<Rightarrow> string" where
  "str_int i = (if i < 0 then CHR ''-'' # str_nat (nat (- i)) else str_nat (nat i))"

subsection \<open>The literals of the source\<close>

text \<open>\<open>"zhubo"\<close>, the prefix of the generic anchor name (U+4E3B U+64AD).\<close>
definition txt_anchor :: string where
  "txt_anchor = utf8 [0x4E3B, 0x64AD]"

text \<open>The placeholder title \<open>get_anchor_info\<close> returns when the lookup fails.\<close>
definition txt_unknown_title :: string where
  "txt_unknown_title = utf8 [0x672A, 0x77E5, 0x6807, 0x9898]"

text \<open>\<open>"<kai bo le>!\n<chuan song men>:"\<close>, between the name and the room's link.\<close>
definition txt_went_live :: string where
  "txt_went_live =
     utf8 [0x5F00, 0x64AD, 0x4E86, 0xFF01, 0x0A, 0x4F20, 0x9001, 0x95E8, 0xFF1A]
     @ ''https://live.bilibili.com/''"

text \<open>\<open>"\n<biao ti>:"\<close> with the full-width colon U+FF1A.\<close>
definition txt_title_line :: string where
  "txt_title_line = utf8 [0x0A, 0x6807, 0x9898, 0xFF1A]"

text \<open>\<open>"<de zhi bo yi jie shu>"\<close>: the broadcast has ended.\<close>
definition txt_ended :: string where
  "txt_ended = utf8 [0x7684, 0x76F4, 0x64AD, 0x5DF2, 0x7ED3, 0x675F]"

text \<open>\<open>",<yi gong zhi bo le>"\<close> with the full-width comma U+FF0C: broadcast in total.\<close>
definition txt_in_total :: string where
  "txt_in_total = utf8 [0xFF0C, 0x4E00, 0x5171, 0x76F4, 0x64AD, 0x4E86]"

definition txt_shi :: string where
  "txt_shi = utf8 [0x65F6]"

definition txt_fen :: string where
  "txt_fen = utf8 [0x5206]"

definition txt_xiaoshi :: string where
  "txt_xiaoshi = utf8 [0x5C0F, 0x65F6]"

definition txt_fenzhong :: string where
  "txt_fenzhong = utf8 [0x5206, 0x949F]"

definition txt_miao :: string where
  "txt_miao = utf8 [0x79D2]"

text \<open>\<open>"<wei zhao dao zhi bo jian> "\<close> and \<open>" <de pei zhi>"\<close>: no configuration found for room.\<close>
definition txt_not_found_pre :: string where
  "txt_not_found_pre = utf8 [0x672A, 0x627E, 0x5230, 0x76F4, 0x64AD, 0x95F4] @ '' ''"

definition txt_not_found_post :: string where
  "txt_not_found_post = '' '' @ utf8 [0x7684, 0x914D, 0x7F6E]"

text \<open>\<open>"<wu fa huo qu zhi bo jian> "\<close> and \<open>" <de xin xi>"\<close>: cannot get the room's information.\<close>
definition txt_cannot_pre :: string where
  "txt_cannot_pre = utf8 [0x65E0, 0x6CD5, 0x83B7, 0x53D6, 0x76F4, 0x64AD, 0x95F4] @ '' ''"

definition txt_cannot_post :: string where
  "txt_cannot_post = '' '' @ utf8 [0x7684, 0x4FE1, 0x606F]"

text \<open>The usage error of \<open>on_group_message\<close>: please enter a correct room ID.\<close>
definition txt_usage :: string where
  "txt_usage =
     utf8 [0x8BF7, 0x8F93, 0x5165, 0x6B63, 0x786E, 0x7684, 0x76F4, 0x64AD, 0x95F4] @ ''ID''"

definition txt_live_now :: string where
  "txt_live_now = utf8 [0x76F4, 0x64AD, 0x4E2D]"

definition txt_not_live :: string where
  "txt_not_live = utf8 [0x672A, 0x5F00, 0x64AD]"

definition txt_room_id_label :: string where
  "txt_room_id_label = utf8 [0x76F4, 0x64AD, 0x95F4] @ ''ID: ''"

definition txt_anchor_label :: string where
  "txt_anchor_label = utf8 [0x0A, 0x4E3B, 0x64AD] @ '': ''"

definition txt_status_label :: string where
  "txt_status_label = utf8 [0x0A, 0x72B6, 0x6001] @ '': ''"

definition txt_start_label :: string where
  "txt_start_label = utf8 [0x5F00, 0x64AD, 0x65F6, 0x95F4] @ '': ''"

definition txt_duration_label :: string where
  "txt_duration_label = utf8 [0x76F4, 0x64AD, 0x65F6, 0x957F] @ '': ''"

definition txt_title_label :: string where
  "txt_title_label = utf8 [0x6807, 0x9898] @ '': ''"

definition txt_last_check_label :: string where
  "txt_last_check_label = utf8 [0x6700, 0x540E, 0x68C0, 0x67E5] @ '': ''"

definition txt_room_link_label :: string where
  "txt_room_link_label =
     utf8 [0x76F4, 0x64AD, 0x95F4, 0x94FE, 0x63A5] @ '': https://live.bilibili.com/''"

definition txt_none_monitored :: string where
  "txt_none_monitored =
     utf8 [0x5F53, 0x524D, 0x6CA1, 0x6709, 0x76D1, 0x63A7, 0x4EFB, 0x4F55, 0x76F4, 0x64AD, 0x95F4]"

definition txt_monitored_head :: string where
  "txt_monitored_head = utf8 [0x76D1, 0x63A7, 0x4E2D, 0x7684, 0x76F4, 0x64AD, 0x95F4] @ '' (''"

definition txt_count_tail :: string where
  "txt_count_tail = utf8 [0x4E2A] @ ''):''"

definition txt_link_label :: string where
  "txt_link_label = ''   '' @ utf8 [0x94FE, 0x63A5] @ '': https://live.bilibili.com/''"

definition txt_white_list_head :: string where
  "txt_white_list_head = utf8 [0x0A, 0x767D, 0x540D, 0x5355, 0x7FA4, 0x7EC4] @ '' (''"

definition nl :: string where
  "nl = [CHR 0x0A]"

section \<open>Time\<close>

text \<open>
  A \<open>datetime\<close> is a point of the local time line in microseconds, a \<open>timedelta\<close> a
  difference of two. \<open>datetime.fromtimestamp\<close> takes the payload's timestamp in seconds.
  The source splits \<open>duration.total_seconds()\<close> with \<open>divmod(_, 3600)\<close> and
  \<open>divmod(_, 60)\<close> and prints \<open>int\<close> of the quotients; the quotients are the floors that
  \<open>div\<close> computes on the microseconds. (\<open>total_seconds()\<close> is a float; its quotients are
  these floors as long as the duration stays below \<open>2 ^ 33\<close> seconds, where a float still
  tells microseconds apart.)
\<close>

type_synonym datetime = int

definition fromtimestamp :: "int \<Rightarrow> datetime" where
  "fromtimestamp t = t * 1000000"

definition divmod :: "int \<Rightarrow> int \<Rightarrow> int \<times> int" where
  "divmod d k = (d div (k * 1000000), d mod (k * 1000000))"

definition int_seconds :: "int \<Rightarrow> int" where
  "int_seconds d = d div 1000000"

text \<open>Lines 142-145: \<open>f"{int(hours)}<shi>{int(minutes)}<fen>"\<close>.\<close>

definition duration_text :: "datetime \<Rightarrow> datetime \<Rightarrow> string" where
  "duration_text now_t start_time =
     (let duration = now_t - start_time;
          (hours, remainder) = divmod duration 3600;
          (minutes, seconds) = divmod remainder 60
      in str_int hours @ txt_shi @ str_int minutes @ txt_fen)"

text \<open>Lines 187-191: hours, minutes and seconds of the single-room report.\<close>

definition duration_text_hms :: "datetime \<Rightarrow> datetime \<Rightarrow> string" where
  "duration_text_hms now_t start_time =
     (let duration = now_t - start_time;
          (hours, remainder) = divmod duration 3600;
          (minutes, seconds) = divmod remainder 60
      in str_int hours @ txt_xiaoshi @ str_int minutes @ txt_fenzhong
         @ str_int (int_seconds seconds) @ txt_miao)"

section \<open>Data model\<close>

text \<open>
  An entry of \<open>white_list_groups\<close> as the configuration gives it: a string, or a number
  (the source normalises entries with \<open>str(gid)\<close>). As keys of a Python \<open>dict\<close> the number
  \<open>5\<close> and the string \<open>"5"\<close> are different keys.
\<close>

datatype gid = GInt int | GStr string

fun str_gid :: "gid \<Rightarrow> string" where
  "str_gid (GInt n) = str_int n"
| "str_gid (GStr s) = s"

text \<open>An entry of \<open>monitor_list\<close>; the key \<open>anchor_name\<close> may be absent (\<open>room_config.get\<close>).\<close>

record room_config =
  room_id :: string
  config_anchor_name :: "string option"

text \<open>A value of the \<open>room_status\<close> dictionary.\<close>

record room_state =
  last_status :: int
  live_start_time :: "datetime option"
  anchor_name :: string

text \<open>
  The \<open>data\<close> object of the status endpoint: the live status code, and the start
  timestamp in seconds, \<open>None\<close> when the payload has no key \<open>live_time\<close>.
\<close>

record room_data =
  live_status :: int
  live_time :: "int option"

text \<open>The dictionary \<open>check_live_status\<close> returns.\<close>

record fetch_result =
  res_room_id :: string
  res_data :: room_data
  check_time :: datetime

text \<open>The dictionary \<open>get_anchor_info\<close> returns.\<close>

record anchor_info =
  name :: string
  title :: string

text \<open>
  What an HTTP request of the source comes back with: \<open>Raised\<close> when \<open>session.get\<close> or
  \<open>resp.json()\<close> raises (network error, timeout, no JSON); otherwise the JSON object, with
  its \<open>code\<close> (\<open>None\<close> when the key is absent) and the part of \<open>data\<close> the source reads
  (\<open>None\<close> when a key on the way is absent, so that the subscript raises \<open>KeyError\<close>).
\<close>

datatype 'a reply = Raised | Json "int option" "'a option"

text \<open>The calls of \<open>logger\<close>, in the order the model makes them.\<close>

datatype log_entry =
    CheckFailed string
  | AnchorFailed string
  | Initialised string string int
  | StatusChanged string nat string
  | MonitorError string

text \<open>The exception that escapes the body of the \<open>for\<close> loop: the missing key.\<close>

datatype error = KeyError string

text \<open>The fields of \<open>BilibiliLiveMonitor\<close>, and the log.\<close>

record plugin =
  monitor_list :: "room_config list"
  white_list_groups :: "gid list"
  room_status :: "string \<rightharpoonup> room_state"
  pending_notifications :: "gid \<rightharpoonup> string list"
  log :: "log_entry list"

text \<open>
  What the outside world answers while one room is handled: the reply of the status
  endpoint and the clock at that moment, the reply of the anchor endpoint should it be
  asked, and the clock when \<open>datetime.now()\<close> is read.
\<close>

record poll =
  status_reply :: "room_data reply"
  checked_at :: datetime
  anchor_reply :: "anchor_info reply"
  now :: datetime

text \<open>An inbound group message: \<open>event.get_group_id()\<close> and \<open>event.message_str\<close>.\<close>

record event =
  group_id :: string
  message_str :: string

section \<open>The two requests\<close>

text \<open>Lines 40-54. The result is paired with what the call logs.\<close>

definition check_live_status :: "string \<Rightarrow> poll \<Rightarrow> fetch_result option \<times> log_entry list" where
  "check_live_status rid p =
     (case status_reply p of
        Raised \<Rightarrow> (None, [CheckFailed rid])
      | Json code d \<Rightarrow>
          if code = Some 0 then
            (case d of
               None \<Rightarrow> (None, [CheckFailed rid])
             | Some x \<Rightarrow>
                 (Some \<lparr>res_room_id = rid, res_data = x, check_time = checked_at p\<rparr>, []))
          else (None, []))"

definition default_name :: "string \<Rightarrow> string" where
  "default_name rid = txt_anchor @ rid"

definition fallback_info :: "string \<Rightarrow> anchor_info" where
  "fallback_info rid = \<lparr>name = default_name rid, title = txt_unknown_title\<rparr>"

text \<open>Lines 56-69.\<close>

definition get_anchor_info :: "string \<Rightarrow> poll \<Rightarrow> anchor_info \<times> log_entry list" where
  "get_anchor_info rid p =
     (case anchor_reply p of
        Raised \<Rightarrow> (fallback_info rid, [AnchorFailed rid])
      | Json code d \<Rightarrow>
          (case code of
             None \<Rightarrow> (fallback_info rid, [AnchorFailed rid])
           | Some c \<Rightarrow>
               if c = 0 then
                 (case d of
                    None \<Rightarrow> (fallback_info rid, [AnchorFailed rid])
                  | Some a \<Rightarrow> (a, []))
               else (fallback_info rid, [])))"

text \<open>Lines 71-75.\<close>

definition is_group_in_white_list :: "plugin \<Rightarrow> string \<Rightarrow> bool" where
  "is_group_in_white_list st g =
     (if g = [] then False else g \<in> set (map str_gid (white_list_groups st)))"

section \<open>The monitor\<close>

text \<open>\<open>next((r for r in self.monitor_list if r['room_id'] == room_id), None)\<close>.\<close>

definition find_config :: "plugin \<Rightarrow> string \<Rightarrow> room_config option" where
  "find_config st rid = find (\<lambda>r. room_id r = rid) (monitor_list st)"

text \<open>
  \<open>room_config['anchor_name'] = actual_name\<close>: \<open>room_config\<close> is the first entry of the
  list with that room id, and the assignment changes it in place.
\<close>

fun set_config_name :: "string \<Rightarrow> string \<Rightarrow> room_config list \<Rightarrow> room_config list" where
  "set_config_name rid n [] = []"
| "set_config_name rid n (r # rs) =
     (if room_id r = rid then r\<lparr>config_anchor_name := Some n\<rparr> # rs
      else r # set_config_name rid n rs)"

definition config_name :: "room_config \<Rightarrow> string" where
  "config_name rc =
     (case config_anchor_name rc of None \<Rightarrow> default_name (room_id rc) | Some n \<Rightarrow> n)"

text \<open>Lines 153-156: the message goes to the queue of every entry of the allow-list.\<close>

definition enqueue :: "string \<Rightarrow> (gid \<rightharpoonup> string list) \<Rightarrow> gid \<Rightarrow> (gid \<rightharpoonup> string list)" where
  "enqueue message pn g =
     pn(g \<mapsto> (case pn g of None \<Rightarrow> [] | Some q \<Rightarrow> q) @ [message])"

definition notify :: "string \<Rightarrow> gid list \<Rightarrow> (gid \<rightharpoonup> string list) \<Rightarrow> (gid \<rightharpoonup> string list)" where
  "notify message gs pn = foldl (enqueue message) pn gs"

text \<open>Lines 133-135 and 138-148: the two messages.\<close>

definition live_message :: "string \<Rightarrow> anchor_info \<Rightarrow> string" where
  "live_message rid info =
     name info @ txt_went_live @ rid
     @ (if title info \<noteq> txt_unknown_title then txt_title_line @ title info else [])"

definition offline_message :: "room_state \<Rightarrow> datetime \<Rightarrow> string" where
  "offline_message rs now_t =
     (case live_start_time rs of
        Some start_time \<Rightarrow>
          anchor_name rs @ txt_ended @ txt_in_total @ duration_text now_t start_time
      | None \<Rightarrow> anchor_name rs @ txt_ended)"

text \<open>
  Lines 150-158, after the message is built: the status is written back, the message is
  queued, the change is logged.
\<close>

definition commit :: "plugin \<Rightarrow> string \<Rightarrow> room_state \<Rightarrow> string \<Rightarrow> plugin" where
  "commit st rid rs message =
     st\<lparr>room_status := (room_status st)(rid \<mapsto> rs),
        pending_notifications := notify message (white_list_groups st) (pending_notifications st),
        log := log st @ [StatusChanged rid (length (white_list_groups st)) message]\<rparr>"

text \<open>
  Lines 93-158, the body of \<open>for result in results\<close>. \<open>Inl\<close> is an exception leaving the
  body; both places that raise come before the first assignment of the iteration, so the
  state is then the one the iteration started with.
\<close>

definition process_result :: "plugin \<Rightarrow> poll \<Rightarrow> fetch_result option \<Rightarrow> error + plugin" where
  "process_result st p result =
     (case result of
        None \<Rightarrow> Inr st
      | Some r \<Rightarrow>
          let rid = res_room_id r; data = res_data r; current_status = live_status data in
          (case find_config st rid of
             None \<Rightarrow> Inr st
           | Some rc \<Rightarrow>
               (case room_status st rid of
                  None \<Rightarrow>
                    Inr (st\<lparr>room_status := (room_status st)(rid \<mapsto>
                               \<lparr>last_status = current_status, live_start_time = None,
                                anchor_name = config_name rc\<rparr>),
                            log := log st @ [Initialised rid (config_name rc) current_status]\<rparr>)
                | Some rs \<Rightarrow>
                    if current_status \<noteq> last_status rs then
                      (if current_status = 1 then
                         (case live_time data of
                            None \<Rightarrow> Inl (KeyError ''live_time'')
                          | Some t \<Rightarrow>
                              let (info, l) = get_anchor_info rid p;
                                  st1 = st\<lparr>monitor_list :=
                                             set_config_name rid (name info) (monitor_list st),
                                           log := log st @ l\<rparr>
                              in Inr (commit st1 rid
                                        \<lparr>last_status = current_status,
                                         live_start_time = Some (fromtimestamp t),
                                         anchor_name = name info\<rparr>
                                        (live_message rid info)))
                       else
                         Inr (commit st rid (rs\<lparr>last_status := current_status\<rparr>)
                                (offline_message rs (now p))))
                    else Inr st)))"

text \<open>
  The \<open>for\<close> loop over the results: an exception ends it, leaving the results after it
  unprocessed and the state as the earlier iterations made it.
\<close>

fun process_results :: "plugin \<Rightarrow> (fetch_result option \<times> poll) list \<Rightarrow> plugin \<times> error option" where
  "process_results st [] = (st, None)"
| "process_results st ((result, p) # rest) =
     (case process_result st p result of
        Inl e \<Rightarrow> (st, Some e)
      | Inr st' \<Rightarrow> process_results st' rest)"

text \<open>
  Lines 88-90: one \<open>check_live_status\<close> per entry of \<open>monitor_list\<close>; \<open>asyncio.gather\<close>
  returns the results in the order of the list. \<open>env i\<close> is what the world answers for
  the entry at index \<open>i\<close>.
\<close>

definition gather :: "plugin \<Rightarrow> (nat \<Rightarrow> poll) \<Rightarrow> ((fetch_result option \<times> log_entry list) \<times> poll) list" where
  "gather st env =
     map (\<lambda>(i, room_info). (check_live_status (room_id room_info) (env i), env i))
       (enumerate 0 (monitor_list st))"



definition str_error :: "error \<Rightarrow> string" where
  "str_error e = (case e of KeyError k \<Rightarrow> [CHR 0x27] @ k @ [CHR 0x27])"

text \<open>
  Lines 88-158, what the \<open>try\<close> block does when there are rooms to monitor: the state
  it leaves, and the exception that ended it, if one did.
\<close>

definition try_body :: "plugin \<Rightarrow> (nat \<Rightarrow> poll) \<Rightarrow> plugin \<times> error option" where
  "try_body st env =
     (let tasks = gather st env;
          st1 = st\<lparr>log := log st @ concat (map (\<lambda>((result, l), p). l) tasks)\<rparr>
      in process_results st1 (map (\<lambda>((result, l), p). (result, p)) tasks))"

text \<open>
  Lines 82-163, one turn of \<open>while True\<close>. The \<open>try\<close> encloses the whole turn: an
  exception is logged and the turn is over. The function is total: no turn ends the loop.
\<close>

definition monitor_cycle :: "plugin \<Rightarrow> (nat \<Rightarrow> poll) \<Rightarrow> plugin" where
  "monitor_cycle st env =
     (if monitor_list st = [] then st
      else
        (case try_body st env of
           (st2, None) \<Rightarrow> st2
         | (st2, Some e) \<Rightarrow> st2\<lparr>log := log st2 @ [MonitorError (str_error e)]\<rparr>))"

text \<open>A world given as the list of its answers, one per entry of \<open>monitor_list\<close>.\<close>

definition answers :: "poll list \<Rightarrow> nat \<Rightarrow> poll" where
  "answers ps i = ps ! i"

text \<open>\<open>monitor_task\<close>: the turns of the loop, one per element of the list of worlds.\<close>

definition monitor_task :: "plugin \<Rightarrow> (nat \<Rightarrow> poll) list \<Rightarrow> plugin" where
  "monitor_task st envs = foldl monitor_cycle st envs"

section \<open>The responder\<close>

text \<open>
  Lines 167-200, the report on one room. \<open>strftime\<close> stands for
  \<open>strftime('%Y-%m-%d %H:%M:%S')\<close> of the standard library.
\<close>

definition single_report :: "(datetime \<Rightarrow> string) \<Rightarrow> plugin \<Rightarrow> poll \<Rightarrow> string \<Rightarrow> string \<times> log_entry list" where
  "single_report strftime st p rid =
     (case find_config st rid of
        None \<Rightarrow> (txt_not_found_pre @ rid @ txt_not_found_post, [])
      | Some rc \<Rightarrow>
          let (result, l1) = check_live_status rid p in
          (case result of
             None \<Rightarrow> (txt_cannot_pre @ rid @ txt_cannot_post, l1)
           | Some r \<Rightarrow>
               let data = res_data r;
                   status_text = (if live_status data = 1 then txt_live_now else txt_not_live);
                   info = txt_room_id_label @ rid @ txt_anchor_label @ config_name rc
                          @ txt_status_label @ status_text @ nl;
                   start_time = (case room_status st rid of
                                   None \<Rightarrow> None | Some rs \<Rightarrow> live_start_time rs);
                   (info2, l2) =
                     (if live_status data = 1 then
                        let (anchor, l) = get_anchor_info rid p in
                        (info
                         @ (case start_time of
                              Some t \<Rightarrow>
                                txt_start_label @ strftime t @ nl
                                @ txt_duration_label @ duration_text_hms (now p) t @ nl
                            | None \<Rightarrow> [])
                         @ txt_title_label @ title anchor @ nl, l)
                      else (info, []))
               in (info2 @ txt_last_check_label @ strftime (check_time r) @ nl
                   @ txt_room_link_label @ rid, l1 @ l2)))"

text \<open>Lines 207-222, the lines of one room in the report on all rooms.\<close>

definition room_lines :: "plugin \<Rightarrow> datetime \<Rightarrow> nat \<times> room_config \<Rightarrow> string" where
  "room_lines st now_t =
     (\<lambda>(i, rc).
        let rid = room_id rc;
            rs = room_status st rid;
            live = (case rs of None \<Rightarrow> False | Some s \<Rightarrow> last_status s = 1);
            start_time = (case rs of None \<Rightarrow> None | Some s \<Rightarrow> live_start_time s)
        in str_nat i @ ''. '' @ config_name rc @ '' (ID: '' @ rid @ '') - ''
           @ (if live then txt_live_now else txt_not_live) @ nl
           @ (case start_time of
                Some t \<Rightarrow>
                  if live then ''   '' @ txt_duration_label @ duration_text now_t t @ nl else []
              | None \<Rightarrow> [])
           @ txt_link_label @ rid @ nl @ nl)"

text \<open>Lines 203-227, the report on all rooms.\<close>

definition all_report :: "plugin \<Rightarrow> poll \<Rightarrow> string" where
  "all_report st p =
     (if monitor_list st = [] then txt_none_monitored
      else
        strip (txt_monitored_head @ str_nat (length (monitor_list st)) @ txt_count_tail @ nl @ nl
               @ concat (map (room_lines st (now p)) (enumerate 1 (monitor_list st)))
               @ txt_white_list_head @ str_nat (length (white_list_groups st)) @ txt_count_tail
               @ '' '' @ join '', '' (map str_gid (white_list_groups st))))"

text \<open>Lines 165-227. \<open>if room_id:\<close> is false for \<open>None\<close> and for the empty string.\<close>

definition get_live_info :: "(datetime \<Rightarrow> string) \<Rightarrow> plugin \<Rightarrow> poll \<Rightarrow> string option \<Rightarrow> string \<times> log_entry list" where
  "get_live_info strftime st p rid_opt =
     (case rid_opt of
        None \<Rightarrow> (all_report st p, [])
      | Some rid \<Rightarrow> if rid = [] then (all_report st p, []) else single_report strftime st p rid)"

text \<open>
  Lines 238-252: the reply to the command, if the text is one, and what producing it logs.
\<close>

definition command_reply :: "(datetime \<Rightarrow> string) \<Rightarrow> plugin \<Rightarrow> poll \<Rightarrow> string \<Rightarrow> string list \<times> log_entry list" where
  "command_reply strftime st p text =
     (let message_str = lower (strip text) in
      if message_str = ''liveinfo'' then
        (let (info, l) = get_live_info strftime st p None in ([info], l))
      else if startswith message_str ''liveinfo '' then
        (let rid = strip (drop 9 message_str) in
         if isdigit rid then
           (let (info, l) = get_live_info strftime st p (Some rid) in ([info], l))
         else ([txt_usage], []))
      else ([], []))"

text \<open>
  Lines 255-261: the messages queued under the key \<open>str(group_id)\<close> are yielded in the
  order of the list, and the list is replaced by the empty one.
\<close>

definition drain :: "plugin \<Rightarrow> string \<Rightarrow> string list \<times> plugin" where
  "drain st g =
     (case pending_notifications st (GStr g) of
        None \<Rightarrow> ([], st)
      | Some q \<Rightarrow>
          if q \<noteq> [] then
            (q, st\<lparr>pending_notifications := (pending_notifications st)(GStr g \<mapsto> [])\<rparr>)
          else ([], st))"

text \<open>
  Lines 229-261: the handler of a group message. The result is the list of the texts it
  yields, in order, and the state it leaves.
\<close>

definition on_group_message :: "(datetime \<Rightarrow> string) \<Rightarrow> plugin \<Rightarrow> poll \<Rightarrow> event \<Rightarrow> string list \<times> plugin" where
  "on_group_message strftime st p ev =
     (if \<not> is_group_in_white_list st (group_id ev) then ([], st)
      else
        let (replies, l) = command_reply strftime st p (message_str ev);
            (messages, st') = drain (st\<lparr>log := log st @ l\<rparr>) (group_id ev)
        in (replies @ messages, st'))"



section \<open>The system\<close>

text \<open>
  The host runs the two entry points on one timeline: a turn of the monitor loop, or an
  inbound group message handled to its end. \<open>run\<close> collects what is sent, as pairs of
  the group the reply goes to and the text.
\<close>

datatype step = Tick "nat \<Rightarrow> poll" | Inbound poll event

fun run :: "(datetime \<Rightarrow> string) \<Rightarrow> plugin \<Rightarrow> step list \<Rightarrow> (string \<times> string) list \<times> plugin" where
  "run strftime st [] = ([], st)"
| "run strftime st (Tick env # rest) = run strftime (monitor_cycle st env) rest"
| "run strftime st (Inbound p ev # rest) =
     (let (out, st') = on_group_message strftime st p ev;
          (outs, st'') = run strftime st' rest
      in (map (\<lambda>m. (group_id ev, m)) out @ outs, st''))"

section \<open>A small deployment\<close>

text \<open>
  One room, \<open>123\<close>, configured with the anchor name \<open>Foo\<close>, and the worlds it meets:
  the room is live since the timestamp \<open>t\<close>, the room is offline, the room is live but
  the payload has no start timestamp, the status request fails. The anchor endpoint
  answers with a name and a title in \<open>world_live\<close> and fails in the other worlds.
\<close>

definition room_foo :: room_config where
  "room_foo = \<lparr>room_id = ''123'', config_anchor_name = Some ''Foo''\<rparr>"

definition world_live :: "int \<Rightarrow> datetime \<Rightarrow> poll" where
  "world_live t clock =
     \<lparr>status_reply = Json (Some 0) (Some \<lparr>live_status = 1, live_time = Some t\<rparr>),
      checked_at = clock,
      anchor_reply = Json (Some 0) (Some \<lparr>name = ''Bar'', title = ''Hello''\<rparr>),
      now = clock\<rparr>"

definition world_offline :: "datetime \<Rightarrow> poll" where
  "world_offline clock =
     \<lparr>status_reply = Json (Some 0) (Some \<lparr>live_status = 0, live_time = None\<rparr>),
      checked_at = clock, anchor_reply = Raised, now = clock\<rparr>"

definition world_live_no_time :: "datetime \<Rightarrow> poll" where
  "world_live_no_time clock =
     \<lparr>status_reply = Json (Some 0) (Some \<lparr>live_status = 1, live_time = None\<rparr>),
      checked_at = clock, anchor_reply = Raised, now = clock\<rparr>"

definition world_down :: "datetime \<Rightarrow> poll" where
  "world_down clock =
     \<lparr>status_reply = Raised, checked_at = clock, anchor_reply = Raised, now = clock\<rparr>"

text \<open>
  The plugin with that room, the given allow-list, the room recorded with the given
  status (or not yet recorded) and the given queues.
\<close>

definition plugin_foo :: "gid list \<Rightarrow> room_state option \<Rightarrow> (gid \<rightharpoonup> string list) \<Rightarrow> plugin" where
  "plugin_foo gs rs pn =
     \<lparr>monitor_list = [room_foo], white_list_groups = gs,
      room_status = (case rs of None \<Rightarrow> Map.empty | Some s \<Rightarrow> [''123'' \<mapsto> s]),
      pending_notifications = pn, log = []\<rparr>"

text \<open>
  A second room, \<open>456\<close>, without configured anchor name, and the plugin that monitors
  both rooms, each recorded with the given status.
\<close>

definition room_bar :: room_config where
  "room_bar = \<lparr>room_id = ''456'', config_anchor_name = None\<rparr>"

definition plugin_two :: "gid list \<Rightarrow> room_state \<Rightarrow> room_state \<Rightarrow> plugin" where
  "plugin_two gs rs1 rs2 =
     \<lparr>monitor_list = [room_foo, room_bar], white_list_groups = gs,
      room_status = [''123'' \<mapsto> rs1, ''456'' \<mapsto> rs2],
      pending_notifications = Map.empty, log = []\<rparr>"

section \<open>The branches of the loop body\<close>

lemma notify_other: "g \<notin> set gs \<Longrightarrow> notify m gs pn g = pn g"
  unfolding notify_def by (induction gs arbitrary: pn) (auto simp: enqueue_def)

lemma commit_fields:
  "white_list_groups (commit st rid rs m) = white_list_groups st"
  "monitor_list (commit st rid rs m) = monitor_list st"
  "room_status (commit st rid rs m) = (room_status st)(rid \<mapsto> rs)"
  "pending_notifications (commit st rid rs m) = notify m (white_list_groups st) (pending_notifications st)"
  "log (commit st rid rs m) = log st @ [StatusChanged rid (length (white_list_groups st)) m]"
  by (simp_all add: commit_def)

lemma process_result_None: "process_result st p None = Inr st"
  by (simp add: process_result_def Let_def)

lemma process_result_no_config:
  "find_config st (res_room_id r) = None \<Longrightarrow> process_result st p (Some r) = Inr st"
  by (simp add: process_result_def Let_def)

lemma process_result_init:
  "find_config st (res_room_id r) = Some rc \<Longrightarrow> room_status st (res_room_id r) = None \<Longrightarrow>
   process_result st p (Some r) =
     Inr (st\<lparr>room_status := (room_status st)(res_room_id r \<mapsto>
                 \<lparr>last_status = live_status (res_data r), live_start_time = None,
                  anchor_name = config_name rc\<rparr>),
             log := log st @ [Initialised (res_room_id r) (config_name rc) (live_status (res_data r))]\<rparr>)"
  by (simp add: process_result_def Let_def)

lemma process_result_same:
  "find_config st (res_room_id r) = Some rc \<Longrightarrow> room_status st (res_room_id r) = Some rs \<Longrightarrow>
   live_status (res_data r) = last_status rs \<Longrightarrow> process_result st p (Some r) = Inr st"
  by (simp add: process_result_def Let_def)

lemma process_result_raise:
  "find_config st (res_room_id r) = Some rc \<Longrightarrow> room_status st (res_room_id r) = Some rs \<Longrightarrow>
   live_status (res_data r) \<noteq> last_status rs \<Longrightarrow> live_status (res_data r) = 1 \<Longrightarrow>
   live_time (res_data r) = None \<Longrightarrow> process_result st p (Some r) = Inl (KeyError ''live_time'')"
  by (simp add: process_result_def Let_def)

lemma process_result_live:
  "find_config st (res_room_id r) = Some rc \<Longrightarrow> room_status st (res_room_id r) = Some rs \<Longrightarrow>
   live_status (res_data r) \<noteq> last_status rs \<Longrightarrow> live_status (res_data r) = 1 \<Longrightarrow>
   live_time (res_data r) = Some t \<Longrightarrow>
   process_result st p (Some r) =
     Inr (commit (st\<lparr>monitor_list := set_config_name (res_room_id r)
                           (name (fst (get_anchor_info (res_room_id r) p))) (monitor_list st),
                      log := log st @ snd (get_anchor_info (res_room_id r) p)\<rparr>)
               (res_room_id r)
               \<lparr>last_status = 1, live_start_time = Some (fromtimestamp t),
                anchor_name = name (fst (get_anchor_info (res_room_id r) p))\<rparr>
               (live_message (res_room_id r) (fst (get_anchor_info (res_room_id r) p))))"
  by (simp add: process_result_def split_beta Let_def)

lemma process_result_offline:
  "find_config st (res_room_id r) = Some rc \<Longrightarrow> room_status st (res_room_id r) = Some rs \<Longrightarrow>
   live_status (res_data r) \<noteq> last_status rs \<Longrightarrow> live_status (res_data r) \<noteq> 1 \<Longrightarrow>
   process_result st p (Some r) =
     Inr (commit st (res_room_id r) (rs\<lparr>last_status := live_status (res_data r)\<rparr>)
               (offline_message rs (now p)))"
  by (simp add: process_result_def Let_def)


lemma process_result_cases:
  assumes "process_result st p res = Inr st'"
  obtains (skip) "st' = st"
  | (init) r rc where "res = Some r" "find_config st (res_room_id r) = Some rc"
      "room_status st (res_room_id r) = None"
      "st' = st\<lparr>room_status := (room_status st)(res_room_id r \<mapsto>
                 \<lparr>last_status = live_status (res_data r), live_start_time = None,
                  anchor_name = config_name rc\<rparr>),
               log := log st @ [Initialised (res_room_id r) (config_name rc) (live_status (res_data r))]\<rparr>"
  | (live) r rc rs t where "res = Some r" "find_config st (res_room_id r) = Some rc"
      "room_status st (res_room_id r) = Some rs" "live_status (res_data r) \<noteq> last_status rs"
      "live_status (res_data r) = 1" "live_time (res_data r) = Some t"
      "st' = commit (st\<lparr>monitor_list := set_config_name (res_room_id r)
                           (name (fst (get_anchor_info (res_room_id r) p))) (monitor_list st),
                         log := log st @ snd (get_anchor_info (res_room_id r) p)\<rparr>)
               (res_room_id r)
               \<lparr>last_status = 1, live_start_time = Some (fromtimestamp t),
                anchor_name = name (fst (get_anchor_info (res_room_id r) p))\<rparr>
               (live_message (res_room_id r) (fst (get_anchor_info (res_room_id r) p)))"
  | (offline) r rc rs where "res = Some r" "find_config st (res_room_id r) = Some rc"
      "room_status st (res_room_id r) = Some rs" "live_status (res_data r) \<noteq> last_status rs"
      "live_status (res_data r) \<noteq> 1"
      "st' = commit st (res_room_id r) (rs\<lparr>last_status := live_status (res_data r)\<rparr>)
               (offline_message rs (now p))"
proof (cases res)
  case None
  with assms have "st' = st" by (simp add: process_result_None)
  then show ?thesis by (rule skip)
next
  case (Some r)
  show ?thesis
  proof (cases "find_config st (res_room_id r)")
    case None
    with assms Some have "st' = st" by (simp add: process_result_no_config)
    then show ?thesis by (rule skip)
  next
    case cfg: (Some rc)
    show ?thesis
    proof (cases "room_status st (res_room_id r)")
      case None
      from assms Some process_result_init [OF cfg None, of p] show ?thesis
        by (intro init [OF Some cfg None]) simp
    next
      case rs: (Some rs)
      show ?thesis
      proof (cases "live_status (res_data r) = last_status rs")
        case True
        with assms Some process_result_same [OF cfg rs, of p] have "st' = st" by simp
        then show ?thesis by (rule skip)
      next
        case diff: False
        show ?thesis
        proof (cases "live_status (res_data r) = 1")
          case one: True
          show ?thesis
          proof (cases "live_time (res_data r)")
            case None
            from process_result_raise [OF cfg rs diff one None, of p] assms Some
            show ?thesis by simp
          next
            case t: (Some t)
            from process_result_live [OF cfg rs diff one t, of p] assms Some
            show ?thesis by (intro live [OF Some cfg rs diff one t]) simp
          qed
        next
          case False
          from process_result_offline [OF cfg rs diff False, of p] assms Some
          show ?thesis by (intro offline [OF Some cfg rs diff False]) simp
        qed
      qed
    qed
  qed
qed

lemma process_result_white_list:
  "process_result st p res = Inr st' \<Longrightarrow> white_list_groups st' = white_list_groups st"
  by (erule process_result_cases) (simp_all add: commit_fields)

lemma process_result_pending_other:
  "process_result st p res = Inr st' \<Longrightarrow> g \<notin> set (white_list_groups st) \<Longrightarrow>
   pending_notifications st' g = pending_notifications st g"
  by (erule process_result_cases) (simp_all add: commit_fields notify_other)

lemma process_results_white_list:
  "process_results st xs = (st', e) \<Longrightarrow> white_list_groups st' = white_list_groups st"
proof (induction xs arbitrary: st)
  case Nil
  then show ?case by simp
next
  case (Cons x xs)
  obtain res p where x: "x = (res, p)" by (cases x)
  show ?case
  proof (cases "process_result st p res")
    case (Inl a)
    with Cons.prems x show ?thesis by simp
  next
    case (Inr s)
    with Cons.prems x have "process_results s xs = (st', e)" by simp
    from Cons.IH [OF this] process_result_white_list [OF Inr] show ?thesis by simp
  qed
qed

lemma process_results_pending_other:
  "process_results st xs = (st', e) \<Longrightarrow> g \<notin> set (white_list_groups st) \<Longrightarrow>
   pending_notifications st' g = pending_notifications st g"
proof (induction xs arbitrary: st)
  case Nil
  then show ?case by simp
next
  case (Cons x xs)
  obtain res p where x: "x = (res, p)" by (cases x)
  show ?case
  proof (cases "process_result st p res")
    case (Inl a)
    with Cons.prems x show ?thesis by simp
  next
    case (Inr s)
    with Cons.prems x have run: "process_results s xs = (st', e)" by simp
    have "g \<notin> set (white_list_groups s)"
      using process_result_white_list [OF Inr] Cons.prems(2) by simp
    from Cons.IH [OF run this] process_result_pending_other [OF Inr Cons.prems(2)]
    show ?thesis by simp
  qed
qed

lemma try_body_white_list:
  "try_body st env = (s, e) \<Longrightarrow> white_list_groups s = white_list_groups st"
  unfolding try_body_def Let_def by (drule process_results_white_list) simp

lemma try_body_pending_other:
  "try_body st env = (s, e) \<Longrightarrow> g \<notin> set (white_list_groups st) \<Longrightarrow>
   pending_notifications s g = pending_notifications st g"
  unfolding try_body_def Let_def by (drule process_results_pending_other [where g = g]) simp_all

lemma monitor_cycle_cases:
  obtains (idle) "monitor_list st = []" "monitor_cycle st env = st"
  | (finished) s where "monitor_list st \<noteq> []" "try_body st env = (s, None)" "monitor_cycle st env = s"
  | (raised) s e where "monitor_list st \<noteq> []" "try_body st env = (s, Some e)"
      "monitor_cycle st env = s\<lparr>log := log s @ [MonitorError (str_error e)]\<rparr>"
proof (cases "monitor_list st = []")
  case True
  then show ?thesis by (intro idle) (simp_all add: monitor_cycle_def)
next
  case False
  obtain s e where run: "try_body st env = (s, e)" by (cases "try_body st env")
  show ?thesis
  proof (cases e)
    case None
    with run False show ?thesis by (intro finished [of s]) (simp_all add: monitor_cycle_def)
  next
    case (Some a)
    with run False show ?thesis by (intro raised [of s a]) (simp_all add: monitor_cycle_def)
  qed
qed

lemma monitor_cycle_white_list:
  "white_list_groups (monitor_cycle st env) = white_list_groups st"
  by (rule monitor_cycle_cases [of st env]) (simp_all add: try_body_white_list)

lemma monitor_cycle_pending_other:
  "g \<notin> set (white_list_groups st) \<Longrightarrow>
   pending_notifications (monitor_cycle st env) g = pending_notifications st g"
  by (rule monitor_cycle_cases [of st env]) (simp_all add: try_body_pending_other)

lemma drain_fields:
  "monitor_list (snd (drain st g)) = monitor_list st"
  "room_status (snd (drain st g)) = room_status st"
  "white_list_groups (snd (drain st g)) = white_list_groups st"
  "log (snd (drain st g)) = log st"
  by (simp_all add: drain_def split: option.splits)

lemma drain_pending:
  "pending_notifications (snd (drain st g)) =
     (case pending_notifications st (GStr g) of
        None \<Rightarrow> pending_notifications st
      | Some q \<Rightarrow> (pending_notifications st)(GStr g \<mapsto> []))"
  by (auto simp: drain_def split: option.splits)

lemma drain_messages:
  "fst (drain st g) = (case pending_notifications st (GStr g) of None \<Rightarrow> [] | Some q \<Rightarrow> q)"
  by (simp add: drain_def split: option.splits)

lemma on_group_message_allowed:
  "is_group_in_white_list st (group_id ev) \<Longrightarrow>
   on_group_message strftime st p ev =
     (fst (command_reply strftime st p (message_str ev))
      @ fst (drain (st\<lparr>log := log st @ snd (command_reply strftime st p (message_str ev))\<rparr>) (group_id ev)),
      snd (drain (st\<lparr>log := log st @ snd (command_reply strftime st p (message_str ev))\<rparr>) (group_id ev)))"
  by (simp add: on_group_message_def split_beta)

lemma on_group_message_rejected:
  "\<not> is_group_in_white_list st (group_id ev) \<Longrightarrow> on_group_message strftime st p ev = ([], st)"
  by (simp add: on_group_message_def)

lemma is_group_in_white_list_cong:
  "white_list_groups s = white_list_groups st \<Longrightarrow>
   is_group_in_white_list s d = is_group_in_white_list st d"
  by (simp add: is_group_in_white_list_def)

lemma on_group_message_white_list:
  "white_list_groups (snd (on_group_message strftime st p ev)) = white_list_groups st"
  by (cases "is_group_in_white_list st (group_id ev)")
    (simp_all add: on_group_message_allowed on_group_message_rejected drain_fields)

lemma on_group_message_outputs:
  "fst (on_group_message strftime st p ev) \<noteq> [] \<Longrightarrow> is_group_in_white_list st (group_id ev)"
  by (cases "is_group_in_white_list st (group_id ev)") (simp_all add: on_group_message_rejected)

lemma run_outputs_allowed:
  "(d, m) \<in> set (fst (run strftime st steps)) \<Longrightarrow> is_group_in_white_list st d"
proof (induction steps arbitrary: st)
  case Nil
  then show ?case by simp
next
  case (Cons x steps)
  show ?case
  proof (cases x)
    case (Tick env)
    with Cons.prems have "(d, m) \<in> set (fst (run strftime (monitor_cycle st env) steps))"
      by simp
    then have "is_group_in_white_list (monitor_cycle st env) d" by (rule Cons.IH)
    then show ?thesis
      by (simp add: is_group_in_white_list_cong [OF monitor_cycle_white_list])
  next
    case (Inbound p ev)
    let ?r = "on_group_message strftime st p ev"
    from Cons.prems Inbound
    have "(d, m) \<in> set (map (\<lambda>m. (group_id ev, m)) (fst ?r)) \<or>
          (d, m) \<in> set (fst (run strftime (snd ?r) steps))"
      by (auto simp: split_beta Let_def)
    then show ?thesis
    proof
      assume "(d, m) \<in> set (map (\<lambda>m. (group_id ev, m)) (fst ?r))"
      then have "d = group_id ev" "fst ?r \<noteq> []" by auto
      then show ?thesis using on_group_message_outputs by simp
    next
      assume "(d, m) \<in> set (fst (run strftime (snd ?r) steps))"
      then have "is_group_in_white_list (snd ?r) d" by (rule Cons.IH)
      then show ?thesis
        by (simp add: is_group_in_white_list_cong [OF on_group_message_white_list])
    qed
  qed
qed

lemmas world_defs = world_live_def world_offline_def world_live_no_time_def world_down_def

section \<open>Who receives messages\<close>

text \<open>
  C6. A group that is not in the allow-list (by the test of \<open>is_group_in_white_list\<close>,
  which compares \<open>str\<close> of the two ids) gets nothing: the handler returns at once, without
  a reply, without emptying a queue and without touching the state; a turn of the monitor
  loop changes no queue but those of the entries of the allow-list; and in any run of the
  system no text is sent to such a group.
\<close>

theorem non_allow_listed_receives_nothing:
  "(\<not> is_group_in_white_list st (group_id ev) \<longrightarrow> on_group_message strftime st p ev = ([], st))
   \<and> (g \<notin> set (white_list_groups st) \<longrightarrow>
        pending_notifications (monitor_cycle st env) g = pending_notifications st g)
   \<and> (\<not> is_group_in_white_list st d \<longrightarrow> (d, m) \<notin> set (fst (run strftime st steps)))"
  using run_outputs_allowed [of d m strftime st steps]
  by (auto simp: on_group_message_rejected monitor_cycle_pending_other)

theorem non_allow_listed_receives_nothing_witness:
  "\<not> is_group_in_white_list (plugin_foo [GStr ''42'', GInt 7] None Map.empty) ''999''
   \<and> on_group_message str_int (plugin_foo [GStr ''42'', GInt 7] None Map.empty) (world_offline 0)
         \<lparr>group_id = ''999'', message_str = ''liveinfo''\<rparr>
       = ([], plugin_foo [GStr ''42'', GInt 7] None Map.empty)
   \<and> GStr ''999'' \<notin> set (white_list_groups (plugin_foo [GStr ''42'', GInt 7] None Map.empty))
   \<and> pending_notifications
         (monitor_cycle (plugin_foo [GStr ''42'', GInt 7] None Map.empty) (answers [world_offline 0]))
         (GStr ''999'') = None
   \<and> (''999'', txt_none_monitored) \<notin>
       set (fst (run str_int (plugin_foo [GStr ''42'', GInt 7] None Map.empty)
                  [Tick (answers [world_live 5 0]), Tick (answers [world_offline 0]),
                   Inbound (world_offline 0) \<lparr>group_id = ''999'', message_str = ''liveinfo''\<rparr>]))"
proof -
  let ?st = "plugin_foo [GStr ''42'', GInt 7] None Map.empty"
  let ?ev = "\<lparr>group_id = ''999'', message_str = ''liveinfo''\<rparr>"
  have no: "\<not> is_group_in_white_list ?st (group_id ?ev)"
    by (simp add: is_group_in_white_list_def plugin_foo_def str_int_def str_nat.simps
        char_of_eq_iff)
  have out: "GStr ''999'' \<notin> set (white_list_groups ?st)"
    by (simp add: plugin_foo_def)
  have empty: "pending_notifications ?st (GStr ''999'') = None"
    by (simp add: plugin_foo_def)
  from non_allow_listed_receives_nothing
         [of ?st ?ev str_int "world_offline 0" "GStr ''999''" "answers [world_offline 0]"
             "''999''" txt_none_monitored
             "[Tick (answers [world_live 5 0]), Tick (answers [world_offline 0]),
               Inbound (world_offline 0) ?ev]"]
       no out empty
  show ?thesis by simp
qed

section \<open>What the responder changes\<close>

text \<open>
  C10. Handling a group message from \<open>d\<close> leaves \<open>monitor_list\<close> and \<open>room_status\<close> as
  they were and changes no queue but the one under the key \<open>str(d)\<close>; that queue, if there
  is one and \<open>d\<close> is allowed, is empty afterwards.
\<close>

theorem responder_frame:
  "monitor_list (snd (on_group_message strftime st p ev)) = monitor_list st
   \<and> room_status (snd (on_group_message strftime st p ev)) = room_status st
   \<and> (\<forall>g. g \<noteq> GStr (group_id ev) \<longrightarrow>
         pending_notifications (snd (on_group_message strftime st p ev)) g = pending_notifications st g)
   \<and> pending_notifications (snd (on_group_message strftime st p ev)) (GStr (group_id ev)) =
       (if is_group_in_white_list st (group_id ev)
        then map_option (\<lambda>q. []) (pending_notifications st (GStr (group_id ev)))
        else pending_notifications st (GStr (group_id ev)))"
proof (cases "is_group_in_white_list st (group_id ev)")
  case True
  then show ?thesis
    by (simp add: on_group_message_allowed drain_fields drain_pending split: option.splits)
next
  case False
  then show ?thesis by (simp add: on_group_message_rejected)
qed

theorem responder_frame_witness:
  "is_group_in_white_list
     (plugin_foo [GStr ''42'', GStr ''7''] None [GStr ''42'' \<mapsto> [''a'', ''b''], GStr ''7'' \<mapsto> [''c'']])
     ''42''
   \<and> pending_notifications
        (snd (on_group_message str_int
               (plugin_foo [GStr ''42'', GStr ''7''] None
                  [GStr ''42'' \<mapsto> [''a'', ''b''], GStr ''7'' \<mapsto> [''c'']])
               (world_offline 0) \<lparr>group_id = ''42'', message_str = ''hello''\<rparr>))
        (GStr ''7'') = Some [''c'']
   \<and> pending_notifications
        (snd (on_group_message str_int
               (plugin_foo [GStr ''42'', GStr ''7''] None
                  [GStr ''42'' \<mapsto> [''a'', ''b''], GStr ''7'' \<mapsto> [''c'']])
               (world_offline 0) \<lparr>group_id = ''42'', message_str = ''hello''\<rparr>))
        (GStr ''42'') = Some []
   \<and> monitor_list
        (snd (on_group_message str_int
               (plugin_foo [GStr ''42'', GStr ''7''] None
                  [GStr ''42'' \<mapsto> [''a'', ''b''], GStr ''7'' \<mapsto> [''c'']])
               (world_offline 0) \<lparr>group_id = ''42'', message_str = ''hello''\<rparr>))
        = [room_foo]"
proof -
  let ?st = "plugin_foo [GStr ''42'', GStr ''7''] None
               [GStr ''42'' \<mapsto> [''a'', ''b''], GStr ''7'' \<mapsto> [''c'']]"
  let ?ev = "\<lparr>group_id = ''42'', message_str = ''hello''\<rparr>"
  have yes: "is_group_in_white_list ?st (group_id ?ev)"
    by (simp add: is_group_in_white_list_def plugin_foo_def)
  have q: "pending_notifications ?st (GStr ''7'') = Some [''c'']"
          "pending_notifications ?st (GStr ''42'') = Some [''a'', ''b'']"
          "monitor_list ?st = [room_foo]"
    by (simp_all add: plugin_foo_def)
  from responder_frame [of str_int ?st "world_offline 0" ?ev] yes q
  show ?thesis by simp
qed

section \<open>The two transition messages\<close>














section \<open>The command with an argument\<close>

lemma char_eq_char_of_iff: "c = char_of n \<longleftrightarrow> take_bit 8 n = of_char c"
  using char_of_eq_iff [of n c] by auto

lemmas char_eval = char_of_eq_iff char_eq_char_of_iff










section \<open>Queues under \<open>notify\<close>\<close>







section \<open>Polls of one room in succession\<close>





section \<open>The first two polls of a room\<close>




lemmas cycle_eval_defs =
  monitor_task_def monitor_cycle_def try_body_def gather_def answers_def check_live_status_def
  get_anchor_info_def process_result_def find_config_def config_name_def commit_def notify_def
  enqueue_def str_error_def Let_def plugin_foo_def room_foo_def world_defs


section \<open>A turn of the monitor loop\<close>

lemma process_results_append:
  "process_results st (xs @ ys) =
     (case process_results st xs of
        (s, None) \<Rightarrow> process_results s ys
      | (s, Some e) \<Rightarrow> (s, Some e))"
proof (induction xs arbitrary: st)
  case Nil
  then show ?case by simp
next
  case (Cons x xs)
  obtain res p where x: "x = (res, p)" by (cases x)
  show ?case
    by (cases "process_result st p res") (simp_all add: x Cons.IH)
qed

lemma process_results_skip:
  "process_results s (xs @ (None, p) # ys) = process_results s (xs @ ys)"
  by (simp add: process_results_append process_result_None split: prod.splits option.splits)

lemma process_results_raise:
  "process_results s xs = (sa, None) \<Longrightarrow> process_result sa p res = Inl e \<Longrightarrow>
   process_results s (xs @ (res, p) # ys) = (sa, Some e)"
  by (simp add: process_results_append)





















lemmas two_rooms_defs =
  monitor_cycle_def try_body_def gather_def answers_def check_live_status_def
  get_anchor_info_def process_result_def find_config_def config_name_def commit_def notify_def
  enqueue_def str_error_def Let_def plugin_two_def room_foo_def room_bar_def world_defs



section \<open>Exceptions\<close>

lemma monitor_task_snoc:
  "monitor_task st (envs @ [env]) = monitor_cycle (monitor_task st envs) env"
  by (simp add: monitor_task_def)

text \<open>
  C4, as the code has it. A status request that raises is caught in \<open>check_live_status\<close>
  and logged there; the room has no result in this turn, and the turn goes on as if the
  room were not in the list. An exception while a result is processed ends the \<open>for\<close>
  loop: the state is the one the results before it left, the results after it are not
  processed; the handler of the turn logs the exception. The loop goes on: the next turn
  starts from the state the turn left.
\<close>

theorem exception_ends_the_turn:
  "(status_reply p = Raised \<longrightarrow> check_live_status rid p = (None, [CheckFailed rid]))
   \<and> process_results s (xs @ (None, p) # ys) = process_results s (xs @ ys)
   \<and> (process_results s xs = (sa, None) \<and> process_result sa p res = Inl e \<longrightarrow>
        process_results s (xs @ (res, p) # ys) = (sa, Some e))
   \<and> (monitor_list st \<noteq> [] \<and> try_body st env = (s', Some e) \<longrightarrow>
        monitor_cycle st env = s'\<lparr>log := log s' @ [MonitorError (str_error e)]\<rparr>)
   \<and> monitor_task st (envs @ [env]) = monitor_cycle (monitor_task st envs) env"
proof (intro conjI impI)
  show "process_results s (xs @ (None, p) # ys) = process_results s (xs @ ys)"
    by (rule process_results_skip)
  show "monitor_task st (envs @ [env]) = monitor_cycle (monitor_task st envs) env"
    by (rule monitor_task_snoc)
next
  assume "status_reply p = Raised"
  then show "check_live_status rid p = (None, [CheckFailed rid])"
    by (simp add: check_live_status_def)
next
  assume "process_results s xs = (sa, None) \<and> process_result sa p res = Inl e"
  then show "process_results s (xs @ (res, p) # ys) = (sa, Some e)"
    by (simp add: process_results_raise)
next
  assume "monitor_list st \<noteq> [] \<and> try_body st env = (s', Some e)"
  then show "monitor_cycle st env = s'\<lparr>log := log s' @ [MonitorError (str_error e)]\<rparr>"
    by (simp add: monitor_cycle_def)
qed

theorem exception_ends_the_turn_witness:
  "check_live_status ''123'' (world_down 60) = (None, [CheckFailed ''123''])
   \<and> process_results
        (plugin_two [GStr ''42'']
           \<lparr>last_status = 0, live_start_time = None, anchor_name = ''Foo''\<rparr>
           \<lparr>last_status = 1, live_start_time = None, anchor_name = ''Bar''\<rparr>)
        [(Some \<lparr>res_room_id = ''123'', res_data = \<lparr>live_status = 1, live_time = None\<rparr>,
                check_time = 60\<rparr>, world_live_no_time 60),
         (Some \<lparr>res_room_id = ''456'', res_data = \<lparr>live_status = 0, live_time = None\<rparr>,
                check_time = 60\<rparr>, world_offline 60)]
       = (plugin_two [GStr ''42'']
            \<lparr>last_status = 0, live_start_time = None, anchor_name = ''Foo''\<rparr>
            \<lparr>last_status = 1, live_start_time = None, anchor_name = ''Bar''\<rparr>,
          Some (KeyError ''live_time''))
   \<and> monitor_cycle
        (plugin_two [GStr ''42'']
           \<lparr>last_status = 0, live_start_time = None, anchor_name = ''Foo''\<rparr>
           \<lparr>last_status = 1, live_start_time = None, anchor_name = ''Bar''\<rparr>)
        (answers [world_live_no_time 60, world_offline 60])
       = (plugin_two [GStr ''42'']
            \<lparr>last_status = 0, live_start_time = None, anchor_name = ''Foo''\<rparr>
            \<lparr>last_status = 1, live_start_time = None, anchor_name = ''Bar''\<rparr>)
         \<lparr>log := [MonitorError (str_error (KeyError ''live_time''))]\<rparr>"
proof -
  let ?st = "plugin_two [GStr ''42'']
              \<lparr>last_status = 0, live_start_time = None, anchor_name = ''Foo''\<rparr>
              \<lparr>last_status = 1, live_start_time = None, anchor_name = ''Bar''\<rparr>"
  let ?env = "answers [world_live_no_time 60, world_offline 60]"
  let ?ra = "Some \<lparr>res_room_id = ''123'', res_data = \<lparr>live_status = 1, live_time = None\<rparr>,
                check_time = 60\<rparr>"
  let ?rb = "(Some \<lparr>res_room_id = ''456'', res_data = \<lparr>live_status = 0, live_time = None\<rparr>,
                check_time = 60\<rparr>, world_offline 60)"
  let ?e = "KeyError ''live_time''"
  have down: "status_reply (world_down 60) = Raised"
    by (simp add: world_down_def)
  have raises: "process_results ?st [] = (?st, None)
                \<and> process_result ?st (world_live_no_time 60) ?ra = Inl ?e"
    by (simp add: process_result_def find_config_def plugin_two_def room_foo_def room_bar_def
        Let_def)
  have turn: "monitor_list ?st \<noteq> [] \<and> try_body ?st ?env = (?st, Some ?e)"
    by (simp add: two_rooms_defs)
  have empty: "log ?st = []" by (simp add: plugin_two_def)
  note A = exception_ends_the_turn [where p = "world_down 60" and rid = "''123''",
      THEN conjunct1, rule_format, OF down]
  note T = exception_ends_the_turn [where s = ?st and xs = "[]" and ys = "[?rb]" and sa = ?st
      and p = "world_live_no_time 60" and res = ?ra and e = ?e and st = ?st and env = ?env
      and s' = ?st]
  note B = T [THEN conjunct2, THEN conjunct2, THEN conjunct1, rule_format, OF raises]
  note C = T [THEN conjunct2, THEN conjunct2, THEN conjunct2, THEN conjunct1, rule_format, OF turn]
  from A B C empty show ?thesis by simp
qed

text \<open>
  Against C4 as stated. Two rooms are monitored: \<open>123\<close>, recorded offline, and
  \<open>456\<close>, recorded live. In one turn room \<open>123\<close> is reported live without start
  timestamp and room \<open>456\<close> is reported offline. The exception raised for room \<open>123\<close>
  ends the turn: room \<open>456\<close> is still recorded live and no message is queued. Had room
  \<open>123\<close> been reported offline, the end of the broadcast of room \<open>456\<close> would have
  been queued.
\<close>

theorem later_room_not_processed:
  "fst (check_live_status ''456'' (world_offline 60)) =
     Some \<lparr>res_room_id = ''456'', res_data = \<lparr>live_status = 0, live_time = None\<rparr>,
           check_time = 60\<rparr>
   \<and> room_status
        (monitor_cycle
           (plugin_two [GStr ''42'']
              \<lparr>last_status = 0, live_start_time = None, anchor_name = ''Foo''\<rparr>
              \<lparr>last_status = 1, live_start_time = None, anchor_name = ''Bar''\<rparr>)
           (answers [world_live_no_time 60, world_offline 60])) ''456''
       = Some \<lparr>last_status = 1, live_start_time = None, anchor_name = ''Bar''\<rparr>
   \<and> pending_notifications
        (monitor_cycle
           (plugin_two [GStr ''42'']
              \<lparr>last_status = 0, live_start_time = None, anchor_name = ''Foo''\<rparr>
              \<lparr>last_status = 1, live_start_time = None, anchor_name = ''Bar''\<rparr>)
           (answers [world_live_no_time 60, world_offline 60])) (GStr ''42'') = None
   \<and> pending_notifications
        (monitor_cycle
           (plugin_two [GStr ''42'']
              \<lparr>last_status = 0, live_start_time = None, anchor_name = ''Foo''\<rparr>
              \<lparr>last_status = 1, live_start_time = None, anchor_name = ''Bar''\<rparr>)
           (answers [world_offline 60, world_offline 60])) (GStr ''42'')
       = Some [''Bar'' @ txt_ended]"
  by (simp add: two_rooms_defs offline_message_def)

section \<open>Delivery\<close>

lemma on_group_message_delivers:
  assumes "is_group_in_white_list st (group_id ev)"
      and "pending_notifications st (GStr (group_id ev)) = Some q"
  shows "fst (on_group_message strftime st p ev) =
           fst (command_reply strftime st p (message_str ev)) @ q"
    and "pending_notifications (snd (on_group_message strftime st p ev)) (GStr (group_id ev)) = Some []"
  using assms by (simp_all add: on_group_message_allowed drain_messages drain_pending)

lemmas responder_eval_defs =
  on_group_message_def is_group_in_white_list_def command_reply_def drain_def strip_def
  lower_def lower_char_def isspace_def startswith_def str_int_def str_nat.simps char_eval

text \<open>
  C5 fails when an entry of the allow-list is a number. The allow-list is \<open>[42]\<close> and
  room \<open>123\<close> is recorded live; a turn of the monitor loop finds it offline and queues
  the message under the key \<open>42\<close>. A message from group \<open>"42"\<close> passes the allow-list
  test, which compares \<open>str\<close> of the ids, but the handler looks up the key \<open>"42"\<close>:
  it sends nothing and the queued message stays. With the entry \<open>"42"\<close> in the allow-list
  the same message is delivered.
\<close>

theorem numeric_entry_never_delivered:
  "is_group_in_white_list
     (monitor_cycle
        (plugin_foo [GInt 42]
           (Some \<lparr>last_status = 1, live_start_time = None, anchor_name = ''Foo''\<rparr>) Map.empty)
        (answers [world_offline 60])) ''42''
   \<and> pending_notifications
        (monitor_cycle
           (plugin_foo [GInt 42]
              (Some \<lparr>last_status = 1, live_start_time = None, anchor_name = ''Foo''\<rparr>) Map.empty)
           (answers [world_offline 60])) (GInt 42) = Some [''Foo'' @ txt_ended]
   \<and> on_group_message str_int
        (monitor_cycle
           (plugin_foo [GInt 42]
              (Some \<lparr>last_status = 1, live_start_time = None, anchor_name = ''Foo''\<rparr>) Map.empty)
           (answers [world_offline 60]))
        (world_offline 90) \<lparr>group_id = ''42'', message_str = ''hello''\<rparr>
       = ([], monitor_cycle
                (plugin_foo [GInt 42]
                   (Some \<lparr>last_status = 1, live_start_time = None, anchor_name = ''Foo''\<rparr>)
                   Map.empty)
                (answers [world_offline 60]))
   \<and> fst (on_group_message str_int
        (monitor_cycle
           (plugin_foo [GStr ''42'']
              (Some \<lparr>last_status = 1, live_start_time = None, anchor_name = ''Foo''\<rparr>) Map.empty)
           (answers [world_offline 60]))
        (world_offline 90) \<lparr>group_id = ''42'', message_str = ''hello''\<rparr>)
       = [''Foo'' @ txt_ended]"
proof -
  have numeric: "monitor_cycle
           (plugin_foo [GInt 42]
              (Some \<lparr>last_status = 1, live_start_time = None, anchor_name = ''Foo''\<rparr>) Map.empty)
           (answers [world_offline 60])
        = \<lparr>monitor_list = [room_foo], white_list_groups = [GInt 42],
           room_status = [''123'' \<mapsto> \<lparr>last_status = 0, live_start_time = None, anchor_name = ''Foo''\<rparr>],
           pending_notifications = [GInt 42 \<mapsto> [''Foo'' @ txt_ended]],
           log = [StatusChanged ''123'' 1 (''Foo'' @ txt_ended)]\<rparr>"
    by (simp add: cycle_eval_defs offline_message_def)
  have textual: "monitor_cycle
           (plugin_foo [GStr ''42'']
              (Some \<lparr>last_status = 1, live_start_time = None, anchor_name = ''Foo''\<rparr>) Map.empty)
           (answers [world_offline 60])
        = \<lparr>monitor_list = [room_foo], white_list_groups = [GStr ''42''],
           room_status = [''123'' \<mapsto> \<lparr>last_status = 0, live_start_time = None, anchor_name = ''Foo''\<rparr>],
           pending_notifications = [GStr ''42'' \<mapsto> [''Foo'' @ txt_ended]],
           log = [StatusChanged ''123'' 1 (''Foo'' @ txt_ended)]\<rparr>"
    by (simp add: cycle_eval_defs offline_message_def)
  show ?thesis
    unfolding numeric textual by (simp add: responder_eval_defs)
qed

end
